theory Spec2Isabelle
  imports Main
begin

section \<open>Data model (models.py)\<close>

text \<open>
  The two tables of \<^verbatim>\<open>models.py\<close> as records. Python integers are \<open>int\<close>; a
  nullable column is an \<open>option\<close>; a \<^verbatim>\<open>str\<close> is a \<open>string\<close>, one \<open>char\<close>
  standing for one character of the Python string. A \<^verbatim>\<open>datetime\<close> is a reading of the
  clock, an \<open>int\<close>. The \<^verbatim>\<open>status\<close> column is a string in the source
  (\<^verbatim>\<open>String(16)\<close>, commented \<^verbatim>\<open>confirmed|waitlist\<close>) and stays one here, so that
  which values are ever written is a property to prove and not a fact of the type.
\<close>

type_synonym datetime = int

record game =
  g_id :: int
  g_title :: string
  g_when :: "datetime option"
  g_location :: "string option"
  teams_capacity :: "int option"
  people_capacity :: "int option"
  is_active :: bool
  g_created_at :: datetime

record registration =
  r_id :: int
  user_id :: int
  chat_id :: int
  game_id :: int
  team_name :: string
  players :: int
  status :: string
  created_at :: datetime
  updated_at :: datetime

text \<open>The database: the rows of the two tables, in insertion order.\<close>

record db =
  games :: "game list"
  registrations :: "registration list"

definition empty_db :: db where
  "empty_db = \<lparr>games = [], registrations = []\<rparr>"

text \<open>
  What a handler answers when it stops early. The source has no exception classes of its
  own: every early \<^verbatim>\<open>return\<close> sends one fixed message, and the constructors below
  name those messages.
  \<^item> \<open>InvalidPlayers\<close>: the text is not an integer, or not in 1..12;
  \<^item> \<open>InvalidName\<close>: the stripped name does not have 2..40 characters;
  \<^item> \<open>GameUnavailable\<close>: the game is missing or not active (one message for both);
  \<^item> \<open>DuplicateRegistration\<close>: the user already has a registration for the game
    (\<^verbatim>\<open>choose_game\<close>), or the insert violated a uniqueness constraint
    (\<^verbatim>\<open>IntegrityError\<close> in \<^verbatim>\<open>players_step\<close>);
  \<^item> \<open>NameTaken\<close>: the team name is in use in the game;
  \<^item> \<open>SaveFailed\<close>: \<^verbatim>\<open>IntegrityError\<close> when a rename is flushed;
  \<^item> \<open>RegistrationNotFound\<close>: the registration is missing or owned by someone else
    (one message for both);
  \<^item> \<open>GameNotFound\<close>, \<open>NotAdmin\<close>: the administrator's handlers;
  \<^item> \<open>Crashed\<close>: an exception that no handler catches (\<^verbatim>\<open>session_scope\<close> rolls back).
\<close>

datatype error =
    InvalidPlayers
  | InvalidName
  | GameUnavailable
  | DuplicateRegistration
  | NameTaken
  | SaveFailed
  | RegistrationNotFound
  | GameNotFound
  | NotAdmin
  | Crashed

section \<open>The storage layer\<close>

text \<open>
  The database is the collaborator behind \<^verbatim>\<open>AsyncSession\<close>, modelled as the backend
  the repository configures: \<^verbatim>\<open>config.py\<close> defaults \<^verbatim>\<open>database_url\<close> to
  \<^verbatim>\<open>sqlite+aiosqlite\<close>, and \<^verbatim>\<open>db.py\<close> creates the engine without switching the
  foreign keys of SQLite on. The store enforces the primary keys and the two uniqueness
  constraints of \<^verbatim>\<open>registrations\<close>. The foreign key of \<^verbatim>\<open>Registration.game_id\<close> and
  its \<^verbatim>\<open>ON DELETE CASCADE\<close> are declared in \<^verbatim>\<open>models.py\<close> and not enforced. An
  integer column holds 64 bits, signed.
\<close>

text \<open>\<^verbatim>\<open>s.get(Game, id)\<close> and \<^verbatim>\<open>s.get(Registration, id)\<close>: the row with that primary key.\<close>

definition get_game :: "db \<Rightarrow> int \<Rightarrow> game option" where
  "get_game s gid = find (\<lambda>g. g_id g = gid) (games s)"

definition get_registration :: "db \<Rightarrow> int \<Rightarrow> registration option" where
  "get_registration s rid = find (\<lambda>r. r_id r = rid) (registrations s)"

text \<open>
  \<^verbatim>\<open>count_confirmed_teams\<close>: \<^verbatim>\<open>SELECT count(id) WHERE game_id = :g AND status = 'confirmed'\<close>.
  It has no parameter to leave a registration out.
\<close>

definition count_confirmed_teams :: "db \<Rightarrow> int \<Rightarrow> int" where
  "count_confirmed_teams s gid =
     int (length (filter (\<lambda>r. game_id r = gid \<and> status r = ''confirmed'') (registrations s)))"

text \<open>
  \<^verbatim>\<open>sum_confirmed_people\<close>: \<^verbatim>\<open>SELECT coalesce(sum(players), 0)\<close> over the confirmed
  registrations of the game, without the row \<^verbatim>\<open>exclude_reg_id\<close> when one is given.
\<close>

definition sum_confirmed_people :: "db \<Rightarrow> int \<Rightarrow> int option \<Rightarrow> int" where
  "sum_confirmed_people s gid exclude_reg_id =
     sum_list (map players
       (filter (\<lambda>r. game_id r = gid \<and> status r = ''confirmed'' \<and>
                     (case exclude_reg_id of None \<Rightarrow> True | Some x \<Rightarrow> r_id r \<noteq> x))
          (registrations s)))"

text \<open>The two lookups by a unique key that the handlers run as \<^verbatim>\<open>select\<close> queries.\<close>

definition find_by_user :: "db \<Rightarrow> int \<Rightarrow> int \<Rightarrow> registration option" where
  "find_by_user s uid gid =
     find (\<lambda>r. user_id r = uid \<and> game_id r = gid) (registrations s)"

definition find_by_team :: "db \<Rightarrow> int \<Rightarrow> string \<Rightarrow> registration option" where
  "find_by_team s gid name =
     find (\<lambda>r. game_id r = gid \<and> team_name r = name) (registrations s)"

text \<open>The key an autoincrement column gives a new row: one more than the largest in use.\<close>

definition next_id :: "int list \<Rightarrow> int" where
  "next_id ids = fold max ids 0 + 1"

text \<open>
  \<^verbatim>\<open>s.add(reg); await s.flush()\<close>. The insert is refused (\<^verbatim>\<open>IntegrityError\<close>, here
  \<open>None\<close>) when it breaks a uniqueness constraint of the table:
  \<^verbatim>\<open>uix_reg_game_user\<close> (game_id, user_id) or \<^verbatim>\<open>uix_reg_game_team\<close>
  (game_id, team_name). Otherwise the row is stored under a new key.
\<close>

definition violates_user :: "db \<Rightarrow> registration \<Rightarrow> bool" where
  "violates_user s reg =
     (\<exists>r \<in> set (registrations s).
        r_id r \<noteq> r_id reg \<and> game_id r = game_id reg \<and> user_id r = user_id reg)"

definition violates_team :: "db \<Rightarrow> registration \<Rightarrow> bool" where
  "violates_team s reg =
     (\<exists>r \<in> set (registrations s).
        r_id r \<noteq> r_id reg \<and> game_id r = game_id reg \<and> team_name r = team_name reg)"

definition violates_unique :: "db \<Rightarrow> registration \<Rightarrow> bool" where
  "violates_unique s reg = (violates_user s reg \<or> violates_team s reg)"

definition insert_registration :: "db \<Rightarrow> registration \<Rightarrow> (registration \<times> db) option" where
  "insert_registration s reg =
     (let reg' = reg\<lparr>r_id := next_id (map r_id (registrations s))\<rparr> in
      if violates_unique s reg' then None
      else Some (reg', s\<lparr>registrations := registrations s @ [reg']\<rparr>))"

text \<open>
  Flushing a changed row: an \<^verbatim>\<open>UPDATE\<close> of the row with that key. It is not issued
  at all when no column changed (so \<^verbatim>\<open>onupdate=datetime.utcnow\<close> moves
  \<^verbatim>\<open>updated_at\<close> only on a real change), and it is refused when a column of a
  uniqueness constraint changed and another row holds the new values of that constraint.
  The result carries the row as stored, which is what the session's object shows
  afterwards.
\<close>

definition update_registration ::
  "db \<Rightarrow> datetime \<Rightarrow> registration \<Rightarrow> registration \<Rightarrow> (registration \<times> db) option" where
  "update_registration s now old reg =
     (if reg = old then Some (reg, s)
      else if ((game_id reg \<noteq> game_id old \<or> user_id reg \<noteq> user_id old) \<and>
                 violates_user s reg) \<or>
              ((game_id reg \<noteq> game_id old \<or> team_name reg \<noteq> team_name old) \<and>
                 violates_team s reg) then None
      else let reg' = reg\<lparr>updated_at := now\<rparr> in
        Some (reg', s\<lparr>registrations :=
                map (\<lambda>r. if r_id r = r_id reg then reg' else r) (registrations s)\<rparr>))"

text \<open>\<^verbatim>\<open>s.delete(reg)\<close>: the row with that key goes, no other row is read or written.\<close>

definition delete_registration_row :: "db \<Rightarrow> int \<Rightarrow> db" where
  "delete_registration_row s rid =
     s\<lparr>registrations := filter (\<lambda>r. r_id r \<noteq> rid) (registrations s)\<rparr>"

text \<open>
  \<^verbatim>\<open>s.delete(g)\<close>. The relationship \<^verbatim>\<open>Game.registrations\<close> is declared with
  \<^verbatim>\<open>cascade="all, delete-orphan", passive_deletes=True\<close>: the session does not load
  the registrations of the game to delete them, it issues the \<^verbatim>\<open>DELETE\<close> of the game
  row alone and leaves the rest to the \<^verbatim>\<open>ON DELETE CASCADE\<close> of the column
  \<^verbatim>\<open>Registration.game_id\<close>. The database does not enforce foreign keys, so the game
  row goes and the registrations stay, referring to a game that is no longer there.
\<close>

definition delete_game_row :: "db \<Rightarrow> int \<Rightarrow> db" where
  "delete_game_row s gid = s\<lparr>games := filter (\<lambda>g. g_id g \<noteq> gid) (games s)\<rparr>"

text \<open>
  Binding a Python integer to an integer column raises \<^verbatim>\<open>OverflowError\<close> when it does
  not fit the column.
\<close>

definition fits_column :: "int option \<Rightarrow> bool" where
  "fits_column x = (case x of None \<Rightarrow> True | Some v \<Rightarrow> - (2 ^ 63) \<le> v \<and> v < 2 ^ 63)"

definition insert_game :: "db \<Rightarrow> game \<Rightarrow> game \<times> db" where
  "insert_game s g =
     (let g' = g\<lparr>g_id := next_id (map g_id (games s))\<rparr> in
      (g', s\<lparr>games := games s @ [g']\<rparr>))"

definition update_game :: "db \<Rightarrow> game \<Rightarrow> db" where
  "update_game s g = s\<lparr>games := map (\<lambda>x. if g_id x = g_id g then g else x) (games s)\<rparr>"

section \<open>Helpers of main.py\<close>

text \<open>\<^verbatim>\<open>is_admin\<close>: membership in \<^verbatim>\<open>settings.admin_ids\<close>, a parameter here.\<close>

definition is_admin :: "int list \<Rightarrow> int \<Rightarrow> bool" where
  "is_admin admin_ids uid = (uid \<in> set admin_ids)"

text \<open>
  \<^verbatim>\<open>(m.text or "").strip()\<close>: a message without text counts as the empty string, and
  whitespace is removed at both ends.
\<close>

definition is_space :: "char \<Rightarrow> bool" where
  "is_space c = ((of_char c :: nat) \<in> {9, 10, 11, 12, 13, 28, 29, 30, 31, 32, 133, 160})"

definition strip :: "string \<Rightarrow> string" where
  "strip t = rev (dropWhile is_space (rev (dropWhile is_space t)))"

definition text_or_empty :: "string option \<Rightarrow> string" where
  "text_or_empty t = (case t of None \<Rightarrow> [] | Some x \<Rightarrow> x)"

section \<open>The capacity rules\<close>

text \<open>
  The two decisions are written inline in the handlers; they are named here after the
  local variables of the source. Creation (\<^verbatim>\<open>players_step\<close>):
  \<^verbatim>\<open>
  teams_over = (game.teams_capacity is not None) and (confirmed_teams >= game.teams_capacity)
  people_over = (game.people_capacity is not None) and ((confirmed_people + players) > game.people_capacity)
  \<close>
  Edit (\<^verbatim>\<open>edit_players_apply\<close>): the same with \<^verbatim>\<open>confirmed_teams > game.teams_capacity\<close>
  and \<^verbatim>\<open>confirmed_people_excl\<close>.
\<close>

definition create_teams_over :: "game \<Rightarrow> int \<Rightarrow> bool" where
  "create_teams_over g confirmed_teams =
     (case teams_capacity g of None \<Rightarrow> False | Some cap \<Rightarrow> confirmed_teams \<ge> cap)"

definition edit_teams_over :: "game \<Rightarrow> int \<Rightarrow> bool" where
  "edit_teams_over g confirmed_teams =
     (case teams_capacity g of None \<Rightarrow> False | Some cap \<Rightarrow> confirmed_teams > cap)"

definition people_over :: "game \<Rightarrow> int \<Rightarrow> int \<Rightarrow> bool" where
  "people_over g confirmed_people n =
     (case people_capacity g of None \<Rightarrow> False | Some cap \<Rightarrow> confirmed_people + n > cap)"

definition create_status :: "game \<Rightarrow> int \<Rightarrow> int \<Rightarrow> int \<Rightarrow> string" where
  "create_status g confirmed_teams confirmed_people n =
     (if create_teams_over g confirmed_teams \<or> people_over g confirmed_people n
      then ''waitlist'' else ''confirmed'')"

definition edit_status :: "game \<Rightarrow> int \<Rightarrow> int \<Rightarrow> int \<Rightarrow> string" where
  "edit_status g confirmed_teams confirmed_people_excl n =
     (if edit_teams_over g confirmed_teams \<or> people_over g confirmed_people_excl n
      then ''waitlist'' else ''confirmed'')"

section \<open>The user's handlers\<close>

text \<open>
  Each handler runs in \<^verbatim>\<open>session_scope\<close>: what it wrote is committed when it returns
  and rolled back when it raises. A handler is a function from the database (and the
  data of the update: the user, the text, the values kept in the conversation state) to
  its answer and the database afterwards. The text of the replies is not modelled. Where
  the source parses a number with \<^verbatim>\<open>int(...)\<close>, the argument is the result of the
  parse, \<open>None\<close> for \<^verbatim>\<open>ValueError\<close>.
\<close>

text \<open>\<^verbatim>\<open>choose_game\<close>: the first step of a registration; it reads only.\<close>

definition choose_game :: "db \<Rightarrow> int \<Rightarrow> int \<Rightarrow> error + unit" where
  "choose_game s gid uid =
     (case get_game s gid of
        None \<Rightarrow> Inl GameUnavailable
      | Some g \<Rightarrow>
          if \<not> is_active g then Inl GameUnavailable
          else if find_by_user s uid gid \<noteq> None then Inl DuplicateRegistration
          else Inr ())"

text \<open>\<^verbatim>\<open>team_name_step\<close>: the second step; it reads only, and keeps the name.\<close>

definition team_name_step :: "db \<Rightarrow> int \<Rightarrow> string option \<Rightarrow> error + string" where
  "team_name_step s gid txt =
     (let name = strip (text_or_empty txt) in
      if \<not> (2 \<le> length name \<and> length name \<le> 40) then Inl InvalidName
      else if find_by_team s gid name \<noteq> None then Inl NameTaken
      else Inr name)"

text \<open>
  \<^verbatim>\<open>players_step\<close>: the last step; \<open>gid\<close> and \<open>name\<close> come from the conversation
  state, \<open>uid\<close> and \<open>cid\<close> from the message.
\<close>

definition players_step ::
  "db \<Rightarrow> datetime \<Rightarrow> int \<Rightarrow> string \<Rightarrow> int \<Rightarrow> int \<Rightarrow> int option \<Rightarrow> (error + registration) \<times> db" where
  "players_step s now gid name uid cid parsed =
     (case parsed of
        None \<Rightarrow> (Inl InvalidPlayers, s)
      | Some n \<Rightarrow>
          if \<not> (1 \<le> n \<and> n \<le> 12) then (Inl InvalidPlayers, s)
          else (case get_game s gid of
            None \<Rightarrow> (Inl GameUnavailable, s)
          | Some g \<Rightarrow>
              if \<not> is_active g then (Inl GameUnavailable, s)
              else
                let confirmed_teams = count_confirmed_teams s gid;
                    confirmed_people = sum_confirmed_people s gid None;
                    reg = \<lparr>r_id = 0, user_id = uid, chat_id = cid, game_id = gid,
                           team_name = name, players = n,
                           status = create_status g confirmed_teams confirmed_people n,
                           created_at = now, updated_at = now\<rparr>
                in (case insert_registration s reg of
                      None \<Rightarrow> (Inl DuplicateRegistration, s)
                    | Some (reg', s') \<Rightarrow> (Inr reg', s'))))"

text \<open>\<^verbatim>\<open>edit_name_apply\<close>: rename; the status is not looked at.\<close>

definition edit_name_apply ::
  "db \<Rightarrow> datetime \<Rightarrow> int \<Rightarrow> int \<Rightarrow> string option \<Rightarrow> (error + unit) \<times> db" where
  "edit_name_apply s now rid uid txt =
     (let name = strip (text_or_empty txt) in
      if \<not> (2 \<le> length name \<and> length name \<le> 40) then (Inl InvalidName, s)
      else (case get_registration s rid of
        None \<Rightarrow> (Inl RegistrationNotFound, s)
      | Some reg \<Rightarrow>
          if user_id reg \<noteq> uid then (Inl RegistrationNotFound, s)
          else if find (\<lambda>r. game_id r = game_id reg \<and> team_name r = name \<and> r_id r \<noteq> r_id reg)
                    (registrations s) \<noteq> None
          then (Inl NameTaken, s)
          else (case update_registration s now reg (reg\<lparr>team_name := name\<rparr>) of
                  None \<Rightarrow> (Inl SaveFailed, s)
                | Some (_, s') \<Rightarrow> (Inr (), s'))))"

text \<open>
  \<^verbatim>\<open>edit_players_apply\<close>. The new player count is written first; the queries that
  follow flush it (autoflush), so they read \<open>s1\<close>. \<^verbatim>\<open>count_confirmed_teams\<close> is called
  without exclusion (the source's comment: the registration itself is counted among the
  confirmed ones, if it is confirmed), \<^verbatim>\<open>sum_confirmed_people\<close> with
  \<^verbatim>\<open>exclude_reg_id=reg.id\<close>. A missing game makes \<^verbatim>\<open>game.teams_capacity\<close> raise.
\<close>

definition edit_players_apply ::
  "db \<Rightarrow> datetime \<Rightarrow> int \<Rightarrow> int \<Rightarrow> int option \<Rightarrow> (error + unit) \<times> db" where
  "edit_players_apply s now rid uid parsed =
     (case parsed of
        None \<Rightarrow> (Inl InvalidPlayers, s)
      | Some n \<Rightarrow>
          if \<not> (1 \<le> n \<and> n \<le> 12) then (Inl InvalidPlayers, s)
          else (case get_registration s rid of
            None \<Rightarrow> (Inl RegistrationNotFound, s)
          | Some reg \<Rightarrow>
              if user_id reg \<noteq> uid then (Inl RegistrationNotFound, s)
              else (case update_registration s now reg (reg\<lparr>players := n\<rparr>) of
                None \<Rightarrow> (Inl Crashed, s)
              | Some (reg1, s1) \<Rightarrow>
                  (case get_game s1 (game_id reg1) of
                     None \<Rightarrow> (Inl Crashed, s)
                   | Some g \<Rightarrow>
                       let confirmed_teams = count_confirmed_teams s1 (game_id reg1);
                           confirmed_people_excl =
                             sum_confirmed_people s1 (game_id reg1) (Some (r_id reg1));
                           reg2 = reg1\<lparr>status := edit_status g confirmed_teams confirmed_people_excl n\<rparr>
                       in (case update_registration s1 now reg1 reg2 of
                             None \<Rightarrow> (Inl Crashed, s)
                           | Some (_, s2) \<Rightarrow> (Inr (), s2))))))"

text \<open>\<^verbatim>\<open>delete_registration\<close>: the owner deletes the registration.\<close>

definition delete_registration :: "db \<Rightarrow> int \<Rightarrow> int \<Rightarrow> (error + unit) \<times> db" where
  "delete_registration s rid uid =
     (case get_registration s rid of
        None \<Rightarrow> (Inl RegistrationNotFound, s)
      | Some reg \<Rightarrow>
          if user_id reg \<noteq> uid then (Inl RegistrationNotFound, s)
          else (Inr (), delete_registration_row s (r_id reg)))"

section \<open>The administrator's handlers\<close>

text \<open>\<^verbatim>\<open>admin_toggle_game\<close>: flips \<^verbatim>\<open>is_active\<close>; no registration is written.\<close>

definition admin_toggle_game :: "int list \<Rightarrow> db \<Rightarrow> int \<Rightarrow> int \<Rightarrow> (error + unit) \<times> db" where
  "admin_toggle_game admin_ids s uid gid =
     (if \<not> is_admin admin_ids uid then (Inl NotAdmin, s)
      else (case get_game s gid of
        None \<Rightarrow> (Inl GameNotFound, s)
      | Some g \<Rightarrow> (Inr (), update_game s (g\<lparr>is_active := \<not> is_active g\<rparr>))))"

text \<open>
  \<^verbatim>\<open>admin_delete_game\<close>: deletes the game and answers that the game was deleted
  together with its registrations.
\<close>

definition admin_delete_game :: "int list \<Rightarrow> db \<Rightarrow> int \<Rightarrow> int \<Rightarrow> (error + unit) \<times> db" where
  "admin_delete_game admin_ids s uid gid =
     (if \<not> is_admin admin_ids uid then (Inl NotAdmin, s)
      else (case get_game s gid of
        None \<Rightarrow> (Inl GameNotFound, s)
      | Some g \<Rightarrow> (Inr (), delete_game_row s (g_id g))))"

text \<open>
  \<^verbatim>\<open>add_game_confirm\<close>: the last step of the wizard stores the game from the values
  the earlier steps kept; \<open>active\<close> is whether the answer was one of the words for yes.
  The earlier steps accept any positive integer as a limit; one that does not fit the
  column makes the flush raise, and nothing is stored.
\<close>

definition add_game_confirm ::
  "db \<Rightarrow> datetime \<Rightarrow> string \<Rightarrow> datetime option \<Rightarrow> string option \<Rightarrow> int option \<Rightarrow> int option \<Rightarrow> bool
     \<Rightarrow> (error + game) \<times> db" where
  "add_game_confirm s now ttl whn loc tcap pcap active =
     (if \<not> (fits_column tcap \<and> fits_column pcap) then (Inl Crashed, s)
      else (case insert_game s \<lparr>g_id = 0, g_title = ttl, g_when = whn, g_location = loc,
                                teams_capacity = tcap, people_capacity = pcap,
                                is_active = active, g_created_at = now\<rparr> of
              (g, s') \<Rightarrow> (Inr g, s')))"

section \<open>Sequences of operations\<close>

text \<open>
  The handlers that write to the database, as operations with their arguments, and the
  database after one of them and after a list of them. \<open>admin_ids\<close> is the
  configuration's list of administrators.
\<close>

datatype op =
    Register datetime int string int int "int option"
  | EditName datetime int int "string option"
  | EditPlayers datetime int int "int option"
  | DeleteRegistration int int
  | ToggleGame int int
  | DeleteGame int int
  | AddGame datetime string "datetime option" "string option" "int option" "int option" bool

fun exec :: "int list \<Rightarrow> db \<Rightarrow> op \<Rightarrow> db" where
  "exec admin_ids s (Register now gid name uid cid parsed) =
     snd (players_step s now gid name uid cid parsed)"
| "exec admin_ids s (EditName now rid uid txt) = snd (edit_name_apply s now rid uid txt)"
| "exec admin_ids s (EditPlayers now rid uid parsed) =
     snd (edit_players_apply s now rid uid parsed)"
| "exec admin_ids s (DeleteRegistration rid uid) = snd (delete_registration s rid uid)"
| "exec admin_ids s (ToggleGame uid gid) = snd (admin_toggle_game admin_ids s uid gid)"
| "exec admin_ids s (DeleteGame uid gid) = snd (admin_delete_game admin_ids s uid gid)"
| "exec admin_ids s (AddGame now ttl whn loc tcap pcap active) =
     snd (add_game_confirm s now ttl whn loc tcap pcap active)"

definition run :: "int list \<Rightarrow> db \<Rightarrow> op list \<Rightarrow> db" where
  "run admin_ids s ops = foldl (exec admin_ids) s ops"

section \<open>Properties of a database\<close>

text \<open>Every stored status is one of the two strings.\<close>

definition status_domain :: "db \<Rightarrow> bool" where
  "status_domain s =
     (\<forall>r \<in> set (registrations s). status r = ''confirmed'' \<or> status r = ''waitlist'')"

text \<open>The primary keys: no two rows of a table have the same \<^verbatim>\<open>id\<close>.\<close>

definition primary_keys :: "db \<Rightarrow> bool" where
  "primary_keys s =
     (distinct (map r_id (registrations s)) \<and> distinct (map g_id (games s)))"

text \<open>
  The aggregates over the confirmed registrations of a game other than the registration
  \<open>rid\<close>: their number and the sum of their players.
\<close>

definition other_confirmed :: "db \<Rightarrow> int \<Rightarrow> int \<Rightarrow> registration list" where
  "other_confirmed s gid rid =
     filter (\<lambda>r. game_id r = gid \<and> status r = ''confirmed'' \<and> r_id r \<noteq> rid) (registrations s)"

definition other_confirmed_teams :: "db \<Rightarrow> int \<Rightarrow> int \<Rightarrow> int" where
  "other_confirmed_teams s gid rid = int (length (other_confirmed s gid rid))"

definition other_confirmed_people :: "db \<Rightarrow> int \<Rightarrow> int \<Rightarrow> int" where
  "other_confirmed_people s gid rid = sum_list (map players (other_confirmed s gid rid))"

text \<open>
  The re-evaluation rule in the specification's words, for comparison with
  \<open>edit_players_apply\<close>: the creation rule on the aggregates of the other confirmed
  registrations, the team comparison being \<open>>\<close> instead of \<open>\<ge>\<close> when the edited
  registration was already confirmed.
\<close>

definition spec_edit_status :: "game \<Rightarrow> bool \<Rightarrow> int \<Rightarrow> int \<Rightarrow> int \<Rightarrow> string" where
  "spec_edit_status g was_confirmed others_teams others_people n =
     (if (case teams_capacity g of
            None \<Rightarrow> False
          | Some cap \<Rightarrow> if was_confirmed then others_teams > cap else others_teams \<ge> cap)
         \<or> (case people_capacity g of None \<Rightarrow> False | Some cap \<Rightarrow> others_people + n > cap)
      then ''waitlist'' else ''confirmed'')"

section \<open>Example data\<close>

text \<open>An active game with the given limits, and a team of game 1.\<close>

definition quiz :: "int option \<Rightarrow> int option \<Rightarrow> game" where
  "quiz tcap pcap =
     \<lparr>g_id = 1, g_title = ''Quiz'', g_when = None, g_location = None,
      teams_capacity = tcap, people_capacity = pcap, is_active = True, g_created_at = 0\<rparr>"

definition team :: "int \<Rightarrow> int \<Rightarrow> string \<Rightarrow> int \<Rightarrow> string \<Rightarrow> registration" where
  "team i uid name n st =
     \<lparr>r_id = i, user_id = uid, chat_id = uid, game_id = 1, team_name = name, players = n,
      status = st, created_at = 0, updated_at = 0\<rparr>"

definition db_of :: "game \<Rightarrow> registration list \<Rightarrow> db" where
  "db_of g rs = \<lparr>games = [g], registrations = rs\<rparr>"

section \<open>Lemmas about the storage layer\<close>

lemma find_Some_mem: "find P xs = Some x \<Longrightarrow> x \<in> set xs \<and> P x"
  by (induction xs) (auto split: if_splits)

lemma get_game_id: "get_game s gid = Some g \<Longrightarrow> g_id g = gid"
  unfolding get_game_def by (drule find_Some_mem) simp

lemma get_registration_id: "get_registration s rid = Some r \<Longrightarrow> r_id r = rid"
  unfolding get_registration_def by (drule find_Some_mem) simp

lemma get_registration_mem: "get_registration s rid = Some r \<Longrightarrow> r \<in> set (registrations s)"
  unfolding get_registration_def by (drule find_Some_mem) simp

lemmas example_defs = quiz_def team_def db_of_def

lemmas query_defs = get_game_def get_registration_def count_confirmed_teams_def
  sum_confirmed_people_def find_by_user_def find_by_team_def next_id_def violates_unique_def
  violates_user_def violates_team_def

lemmas rule_defs = create_status_def edit_status_def create_teams_over_def edit_teams_over_def
  people_over_def

lemma no_duplicate_no_violation:
  assumes "find_by_user s uid gid = None" and "find_by_team s gid name = None"
    and "user_id reg = uid" and "game_id reg = gid" and "team_name reg = name"
  shows "\<not> violates_unique s reg"
  using assms
  unfolding find_by_user_def find_by_team_def violates_unique_def violates_user_def
    violates_team_def find_None_iff
  by auto

text \<open>A new key is larger than every key in use.\<close>

lemma fold_max_ge: "a \<le> fold max xs (a::int)"
  by (induction xs arbitrary: a) (auto intro: order_trans [OF max.cobounded2])

lemma fold_max_mem: "x \<in> set xs \<Longrightarrow> x \<le> fold max xs (a::int)"
proof (induction xs arbitrary: a)
  case Nil
  then show ?case by simp
next
  case (Cons y ys)
  show ?case
  proof (cases "x = y")
    case True
    have "y \<le> max y a" by simp
    also have "\<dots> \<le> fold max ys (max y a)" by (rule fold_max_ge)
    finally show ?thesis using True by simp
  next
    case False
    with Cons.prems have "x \<in> set ys" by simp
    from Cons.IH [OF this] show ?thesis by simp
  qed
qed

lemma next_id_fresh: "x \<in> set ids \<Longrightarrow> x < next_id ids"
  unfolding next_id_def using fold_max_mem [of x ids 0] by simp

lemma next_id_not_mem: "next_id ids \<notin> set ids"
  using next_id_fresh [of "next_id ids" ids] by auto

lemma duplicate_violates:
  assumes "r \<in> set (registrations s)" and "game_id r = game_id reg"
    and "user_id r = user_id reg \<or> team_name r = team_name reg"
    and "r_id reg = next_id (map r_id (registrations s))"
  shows "violates_unique s reg"
proof -
  have "r_id r \<in> set (map r_id (registrations s))" using assms(1) by simp
  then have "r_id r \<noteq> r_id reg" using next_id_fresh assms(4) by fastforce
  then show ?thesis
    unfolding violates_unique_def violates_user_def violates_team_def using assms(1-3) by blast
qed

text \<open>
  A registration attempt that passes every check: the row that \<open>players_step\<close> stores
  and returns.
\<close>

lemma players_step_success:
  assumes "get_game s gid = Some g" and "is_active g" and "1 \<le> n" and "n \<le> 12"
    and "find_by_user s uid gid = None" and "find_by_team s gid name = None"
  shows "players_step s now gid name uid cid (Some n) =
           (let reg = \<lparr>r_id = next_id (map r_id (registrations s)), user_id = uid, chat_id = cid,
                        game_id = gid, team_name = name, players = n,
                        status = create_status g (count_confirmed_teams s gid)
                                   (sum_confirmed_people s gid None) n,
                        created_at = now, updated_at = now\<rparr>
            in (Inr reg, s\<lparr>registrations := registrations s @ [reg]\<rparr>))"
proof -
  let ?reg = "\<lparr>r_id = next_id (map r_id (registrations s)), user_id = uid, chat_id = cid,
                game_id = gid, team_name = name, players = n,
                status = create_status g (count_confirmed_teams s gid)
                           (sum_confirmed_people s gid None) n,
                created_at = now, updated_at = now\<rparr>"
  have "\<not> violates_unique s ?reg"
    by (rule no_duplicate_no_violation [OF assms(5,6)]) simp_all
  then show ?thesis
    using assms(1-4) by (simp add: players_step_def insert_registration_def Let_def)
qed

section \<open>Lemmas about updates\<close>

text \<open>An update touches the row with the given key and no other; the games stay.\<close>

lemma filter_others_map:
  assumes "f new = k"
  shows "filter (\<lambda>r. f r \<noteq> k) (map (\<lambda>r. if f r = k then new else r) xs) = filter (\<lambda>r. f r \<noteq> k) xs"
  using assms by (induction xs) auto

lemma update_registration_row:
  assumes "update_registration s now old reg = Some (reg', s')"
  shows "reg' = reg \<or> reg' = reg\<lparr>updated_at := now\<rparr>"
  using assms unfolding update_registration_def Let_def by (auto split: if_splits)

lemma update_registration_frame:
  assumes "update_registration s now old reg = Some (reg', s')"
  shows "games s' = games s \<and>
         filter (\<lambda>r. r_id r \<noteq> r_id reg) (registrations s') =
           filter (\<lambda>r. r_id r \<noteq> r_id reg) (registrations s)"
  using assms unfolding update_registration_def Let_def
  by (auto split: if_splits simp: filter_others_map)

lemma edit_players_apply_frame:
  "games (snd (edit_players_apply s now rid uid parsed)) = games s \<and>
   filter (\<lambda>r. r_id r \<noteq> rid) (registrations (snd (edit_players_apply s now rid uid parsed))) =
     filter (\<lambda>r. r_id r \<noteq> rid) (registrations s)"
proof (cases "fst (edit_players_apply s now rid uid parsed)")
  case (Inl e)
  then have "snd (edit_players_apply s now rid uid parsed) = s"
    unfolding edit_players_apply_def Let_def
    by (auto split: option.splits if_splits prod.splits)
  then show ?thesis by simp
next
  case (Inr u)
  then obtain n reg reg1 s1 g reg2 s2 where
    reg: "get_registration s rid = Some reg" and
    u1: "update_registration s now reg (reg\<lparr>players := n\<rparr>) = Some (reg1, s1)" and
    u2: "update_registration s1 now reg1
           (reg1\<lparr>status := edit_status g (count_confirmed_teams s1 (game_id reg1))
                     (sum_confirmed_people s1 (game_id reg1) (Some (r_id reg1))) n\<rparr>) = Some (reg2, s2)" and
    res: "snd (edit_players_apply s now rid uid parsed) = s2"
    unfolding edit_players_apply_def Let_def
    by (auto split: option.splits if_splits prod.splits)
  have id: "r_id reg = rid" by (rule get_registration_id [OF reg])
  have id1: "r_id reg1 = rid" using update_registration_row [OF u1] id by auto
  from update_registration_frame [OF u1] update_registration_frame [OF u2] id id1 res
  show ?thesis by simp
qed

text \<open>Both rules answer one of the two strings, and an update stores what it is given.\<close>

lemma create_status_domain:
  "create_status g ct cp n = ''confirmed'' \<or> create_status g ct cp n = ''waitlist''"
  by (simp add: create_status_def)

lemma edit_status_domain:
  "edit_status g ct cp n = ''confirmed'' \<or> edit_status g ct cp n = ''waitlist''"
  by (simp add: edit_status_def)

lemma update_registration_status_domain:
  assumes "status_domain s" and "status reg = ''confirmed'' \<or> status reg = ''waitlist''"
    and "update_registration s now old reg = Some (reg', s')"
  shows "status_domain s' \<and> status reg' = status reg"
  using assms unfolding update_registration_def status_domain_def Let_def
  by (auto split: if_splits)

lemma get_registration_status:
  "status_domain s \<Longrightarrow> get_registration s rid = Some r
     \<Longrightarrow> status r = ''confirmed'' \<or> status r = ''waitlist''"
  unfolding status_domain_def by (drule get_registration_mem) blast

lemma players_step_status_domain:
  assumes "status_domain s"
  shows "status_domain (snd (players_step s now gid name uid cid parsed))"
  using assms create_status_domain
  unfolding players_step_def insert_registration_def Let_def status_domain_def
  by (auto split: option.splits)

lemma edit_name_apply_status_domain:
  assumes "status_domain s"
  shows "status_domain (snd (edit_name_apply s now rid uid txt))"
proof -
  have "status_domain s'"
    if "get_registration s rid = Some reg"
      and "update_registration s now reg (reg\<lparr>team_name := name\<rparr>) = Some (reg', s')"
    for reg reg' s' name
    using update_registration_status_domain [OF assms _ that(2)]
      get_registration_status [OF assms that(1)] by simp
  then show ?thesis
    using assms unfolding edit_name_apply_def Let_def
    by (auto split: option.splits)
qed

lemma edit_players_apply_status_domain:
  assumes "status_domain s"
  shows "status_domain (snd (edit_players_apply s now rid uid parsed))"
proof -
  have "status_domain s2"
    if "get_registration s rid = Some reg"
      and "update_registration s now reg (reg\<lparr>players := n\<rparr>) = Some (reg1, s1)"
      and "update_registration s1 now reg1 (reg1\<lparr>status := edit_status g ct cp n\<rparr>) = Some (reg2, s2)"
    for reg reg1 reg2 s1 s2 n g ct cp
  proof -
    have "status_domain s1"
      using update_registration_status_domain [OF assms _ that(2)]
        get_registration_status [OF assms that(1)] by simp
    from update_registration_status_domain [OF this _ that(3)] edit_status_domain
    show ?thesis by simp
  qed
  then show ?thesis
    using assms unfolding edit_players_apply_def Let_def
    by (auto split: option.splits)
qed

lemma exec_status_domain:
  assumes "status_domain s"
  shows "status_domain (exec admin_ids s x)"
proof (cases x)
  case Register
  then show ?thesis using players_step_status_domain [OF assms] by simp
next
  case EditName
  then show ?thesis using edit_name_apply_status_domain [OF assms] by simp
next
  case EditPlayers
  then show ?thesis using edit_players_apply_status_domain [OF assms] by simp
next
  case DeleteRegistration
  then show ?thesis
    using assms
    by (auto simp: delete_registration_def delete_registration_row_def status_domain_def
        split: option.splits)
next
  case ToggleGame
  then show ?thesis
    using assms
    by (auto simp: admin_toggle_game_def update_game_def status_domain_def split: option.splits)
next
  case DeleteGame
  then show ?thesis
    using assms
    by (auto simp: admin_delete_game_def delete_game_row_def status_domain_def
        split: option.splits)
next
  case AddGame
  then show ?thesis
    using assms by (simp add: add_game_confirm_def insert_game_def Let_def status_domain_def)
qed

section \<open>Lemmas about the edit of the player count\<close>

text \<open>
  Under distinct primary keys, the count of confirmed teams is the count over the other
  registrations, plus one when the registration itself is a confirmed one of the game.
\<close>

lemma filter_key_singleton:
  assumes "distinct (map f xs)" and "x \<in> set xs"
  shows "filter (\<lambda>r. f r = f x) xs = [x]"
  using assms
proof (induction xs)
  case Nil
  then show ?case by simp
next
  case (Cons y ys)
  show ?case
  proof (cases "x = y")
    case True
    have "f r \<noteq> f y" if "r \<in> set ys" for r
      using Cons.prems(1) that by (auto simp: image_iff)
    then have "filter (\<lambda>r. f r = f y) ys = []"
      by (simp add: filter_empty_conv)
    with True show ?thesis by simp
  next
    case False
    with Cons.prems have "x \<in> set ys" and "f y \<noteq> f x" by auto
    with Cons show ?thesis by simp
  qed
qed

lemma length_filter_split:
  "length (filter P xs) =
     length (filter (\<lambda>r. P r \<and> \<not> Q r) xs) + length (filter (\<lambda>r. P r \<and> Q r) xs)"
  by (induction xs) auto

lemma count_confirmed_teams_split:
  assumes "primary_keys s" and "get_registration s rid = Some reg"
  shows "count_confirmed_teams s gid =
           other_confirmed_teams s gid rid +
           (if game_id reg = gid \<and> status reg = ''confirmed'' then 1 else 0)"
proof -
  let ?P = "\<lambda>r. game_id r = gid \<and> status r = ''confirmed''"
  have id: "r_id reg = rid" and mem: "reg \<in> set (registrations s)"
    using assms(2) by (simp_all add: get_registration_id get_registration_mem)
  have d: "distinct (map r_id (registrations s))"
    using assms(1) by (simp add: primary_keys_def)
  have "filter (\<lambda>r. ?P r \<and> r_id r = rid) (registrations s) =
          filter ?P (filter (\<lambda>r. r_id r = r_id reg) (registrations s))"
    by (simp add: id conj_commute)
  also have "\<dots> = filter ?P [reg]"
    by (simp only: filter_key_singleton [OF d mem])
  finally have one: "length (filter (\<lambda>r. ?P r \<and> r_id r = rid) (registrations s)) =
      (if ?P reg then 1 else 0)" by simp
  have "length (filter ?P (registrations s)) =
          length (filter (\<lambda>r. ?P r \<and> \<not> r_id r = rid) (registrations s)) +
          length (filter (\<lambda>r. ?P r \<and> r_id r = rid) (registrations s))"
    by (rule length_filter_split)
  with one show ?thesis
    by (simp add: count_confirmed_teams_def other_confirmed_teams_def other_confirmed_def conj_assoc)
qed

lemma sum_confirmed_people_others:
  "sum_confirmed_people s gid (Some rid) = other_confirmed_people s gid rid"
  by (simp add: sum_confirmed_people_def other_confirmed_people_def other_confirmed_def)

lemma find_map_update:
  assumes "f new = k"
  shows "find (\<lambda>r. f r = k) (map (\<lambda>r. if f r = k then new else r) xs) =
           (case find (\<lambda>r. f r = k) xs of None \<Rightarrow> None | Some _ \<Rightarrow> Some new)"
  using assms by (induction xs) auto

lemma update_registration_lookup:
  assumes "get_registration s rid = Some old" and "r_id reg = rid"
    and "update_registration s now old reg = Some (reg', s')"
  shows "get_registration s' rid = Some reg'"
  using assms unfolding update_registration_def get_registration_def Let_def
  by (auto split: if_splits simp: find_map_update)

lemma update_registration_total:
  assumes "game_id reg = game_id old" and "user_id reg = user_id old"
    and "team_name reg = team_name old"
  shows "\<exists>reg' s'. update_registration s now old reg = Some (reg', s')"
  using assms unfolding update_registration_def Let_def by simp

lemma map_update_same:
  assumes "distinct (map f xs)" and "old \<in> set xs" and "f old = k" and "\<And>r. P (g r) = P r"
    and "P new = P old"
  shows "filter P (map (\<lambda>r. if f r = k then new else r) xs) =
         map (\<lambda>r. if f r = k then new else r) (filter P xs)"
proof -
  have "P (if f r = k then new else r) = P r" if "r \<in> set xs" for r
  proof (cases "f r = k")
    case True
    have "inj_on f (set xs)" using assms(1) by (simp add: distinct_map)
    then have "r = old" using that assms(2,3) True by (auto dest: inj_onD)
    then show ?thesis using True assms(5) by simp
  next
    case False
    then show ?thesis by simp
  qed
  then show ?thesis
    by (simp add: filter_map comp_def cong: filter_cong)
qed

lemma update_registration_count:
  assumes "primary_keys s" and "get_registration s rid = Some old" and "r_id reg = rid"
    and "game_id reg = game_id old" and "status reg = status old"
    and "update_registration s now old reg = Some (reg', s')"
  shows "count_confirmed_teams s' gid = count_confirmed_teams s gid \<and> primary_keys s' \<and>
         games s' = games s"
proof (cases "reg = old")
  case True
  then show ?thesis using assms by (simp add: update_registration_def)
next
  case False
  let ?new = "reg\<lparr>updated_at := now\<rparr>"
  let ?upd = "\<lambda>r. if r_id r = rid then ?new else r"
  let ?P = "\<lambda>r. game_id r = gid \<and> status r = ''confirmed''"
  from False assms(3,6) have s': "s' = s\<lparr>registrations := map ?upd (registrations s)\<rparr>"
    unfolding update_registration_def Let_def by (auto split: if_splits)
  have d: "distinct (map r_id (registrations s))"
    using assms(1) by (simp add: primary_keys_def)
  have mem: "old \<in> set (registrations s)" and id: "r_id old = rid"
    using assms(2) by (simp_all add: get_registration_mem get_registration_id)
  have "filter ?P (map ?upd (registrations s)) = map ?upd (filter ?P (registrations s))"
    by (rule map_update_same [OF d mem id, where g = id]) (simp_all add: assms(4,5))
  then have c: "count_confirmed_teams s' gid = count_confirmed_teams s gid"
    by (simp add: count_confirmed_teams_def s')
  have "r_id \<circ> ?upd = r_id"
    by (auto simp: fun_eq_iff assms(3))
  then have "primary_keys s'" using assms(1) by (simp add: primary_keys_def s')
  with c show ?thesis by (simp add: s')
qed

lemma update_registration_sum_others:
  assumes "r_id reg = rid" and "update_registration s now old reg = Some (reg', s')"
  shows "sum_confirmed_people s' gid (Some rid) = sum_confirmed_people s gid (Some rid)"
proof -
  have "filter (\<lambda>r. game_id r = gid \<and> status r = ''confirmed'' \<and> r_id r \<noteq> rid)
          (map (\<lambda>r. if r_id r = rid then new else r) xs) =
        filter (\<lambda>r. game_id r = gid \<and> status r = ''confirmed'' \<and> r_id r \<noteq> rid) xs"
    if "r_id new = rid" for new and xs :: "registration list"
    using that by (induction xs) auto
  then show ?thesis
    using assms unfolding update_registration_def sum_confirmed_people_def Let_def
    by (auto split: if_splits)
qed

lemmas other_defs = other_confirmed_def other_confirmed_teams_def other_confirmed_people_def

text \<open>
  An edit that passes the checks: where it ends and which row it leaves. The aggregates
  are those of the database before the edit: the flush of the new player count changes
  neither.
\<close>

lemma edit_players_apply_success:
  assumes "primary_keys s" and "get_registration s rid = Some reg" and "user_id reg = uid"
    and "1 \<le> n" and "n \<le> 12" and "get_game s (game_id reg) = Some g"
  shows "\<exists>s' reg'. edit_players_apply s now rid uid (Some n) = (Inr (), s') \<and>
           get_registration s' rid = Some reg' \<and>
           (\<exists>t. reg' = reg\<lparr>players := n, updated_at := t,
                    status := edit_status g (count_confirmed_teams s (game_id reg))
                      (sum_confirmed_people s (game_id reg) (Some rid)) n\<rparr>)"
proof -
  let ?gid = "game_id reg"
  let ?st = "edit_status g (count_confirmed_teams s ?gid) (sum_confirmed_people s ?gid (Some rid)) n"
  have id: "r_id reg = rid" by (rule get_registration_id [OF assms(2)])
  obtain reg1 s1 where u1: "update_registration s now reg (reg\<lparr>players := n\<rparr>) = Some (reg1, s1)"
    using update_registration_total [of "reg\<lparr>players := n\<rparr>" reg s now] by auto
  from update_registration_row [OF u1]
  have row1: "\<exists>t. reg1 = reg\<lparr>players := n, updated_at := t\<rparr>"
  proof
    assume "reg1 = reg\<lparr>players := n\<rparr>"
    then have "reg1 = reg\<lparr>players := n, updated_at := updated_at reg\<rparr>" by simp
    then show ?thesis ..
  next
    assume "reg1 = reg\<lparr>players := n, updated_at := now\<rparr>"
    then show ?thesis ..
  qed
  then obtain t1 where reg1: "reg1 = reg\<lparr>players := n, updated_at := t1\<rparr>" ..
  have l1: "get_registration s1 rid = Some reg1"
    by (rule update_registration_lookup [OF assms(2) _ u1]) (simp add: id)
  have c1: "count_confirmed_teams s1 ?gid = count_confirmed_teams s ?gid"
    and k1: "primary_keys s1" and g1: "games s1 = games s"
    using update_registration_count [OF assms(1,2) _ _ _ u1, of ?gid] by (simp_all add: id)
  have p1: "sum_confirmed_people s1 ?gid (Some rid) = sum_confirmed_people s ?gid (Some rid)"
    by (rule update_registration_sum_others [OF _ u1]) (simp add: id)
  have gg: "get_game s1 ?gid = Some g"
    using assms(6) g1 by (simp add: get_game_def)
  obtain reg2 s2 where u2: "update_registration s1 now reg1 (reg1\<lparr>status := ?st\<rparr>) = Some (reg2, s2)"
    using update_registration_total [of "reg1\<lparr>status := ?st\<rparr>" reg1 s1 now] by auto
  from update_registration_row [OF u2]
  have row2: "\<exists>t. reg2 = reg\<lparr>players := n, updated_at := t, status := ?st\<rparr>"
  proof
    assume "reg2 = reg1\<lparr>status := ?st\<rparr>"
    then have "reg2 = reg\<lparr>players := n, updated_at := t1, status := ?st\<rparr>"
      by (simp add: reg1)
    then show ?thesis ..
  next
    assume "reg2 = reg1\<lparr>status := ?st, updated_at := now\<rparr>"
    then have "reg2 = reg\<lparr>players := n, updated_at := now, status := ?st\<rparr>"
      by (simp add: reg1)
    then show ?thesis ..
  qed
  have l2: "get_registration s2 rid = Some reg2"
    by (rule update_registration_lookup [OF l1 _ u2]) (simp add: reg1 id)
  have gid1: "game_id reg1 = ?gid" and id1: "r_id reg1 = rid"
    by (simp_all add: reg1 id)
  have "edit_players_apply s now rid uid (Some n) = (Inr (), s2)"
    unfolding edit_players_apply_def
    by (simp add: assms(2-5) u1 gid1 id1 gg c1 p1 u2 Let_def)
  with l2 row2 show ?thesis by blast
qed

section \<open>The primary keys stay distinct\<close>

text \<open>
  \<open>primary_keys\<close> holds of the empty database and is kept by every operation, so it
  is no restriction to assume it of the database a handler meets.
\<close>

lemma update_registration_keys:
  assumes "primary_keys s" and "update_registration s now old reg = Some (reg', s')"
  shows "primary_keys s'"
proof (cases "reg = old")
  case True
  then show ?thesis using assms by (simp add: update_registration_def)
next
  case False
  let ?upd = "\<lambda>r. if r_id r = r_id reg then reg\<lparr>updated_at := now\<rparr> else r"
  from False assms(2) have s': "s' = s\<lparr>registrations := map ?upd (registrations s)\<rparr>"
    unfolding update_registration_def Let_def by (auto split: if_splits)
  have "r_id \<circ> ?upd = r_id" by (auto simp: fun_eq_iff)
  then show ?thesis using assms(1) by (simp add: primary_keys_def s')
qed

lemma exec_primary_keys:
  assumes "primary_keys s"
  shows "primary_keys (exec admin_ids s x)"
proof (cases x)
  case Register
  then show ?thesis
    using assms next_id_not_mem [of "map r_id (registrations s)"]
    by (auto simp: players_step_def insert_registration_def Let_def primary_keys_def
        split: option.splits)
next
  case EditName
  then show ?thesis
    using assms update_registration_keys [OF assms]
    by (auto simp: edit_name_apply_def Let_def split: option.splits)
next
  case (EditPlayers now rid uid parsed)
  have "primary_keys s2"
    if "update_registration s now reg a = Some (reg1, s1)"
      and "update_registration s1 now reg1 b = Some (reg2, s2)"
    for reg a reg1 s1 b reg2 s2
    using update_registration_keys [OF update_registration_keys [OF assms that(1)] that(2)] .
  then show ?thesis
    using assms EditPlayers
    by (auto simp: edit_players_apply_def Let_def split: option.splits)
next
  case DeleteRegistration
  then show ?thesis
    using assms
    by (auto simp: delete_registration_def delete_registration_row_def primary_keys_def
        distinct_map_filter split: option.splits)
next
  case (ToggleGame uid gid)
  have eq: "g_id \<circ> (\<lambda>x. if g_id x = g_id g then g\<lparr>is_active := b\<rparr> else x) = g_id" for g b
    by (auto simp: fun_eq_iff)
  show ?thesis
    using assms ToggleGame
    by (auto simp: admin_toggle_game_def update_game_def primary_keys_def eq split: option.splits)
next
  case DeleteGame
  then show ?thesis
    using assms
    by (auto simp: admin_delete_game_def delete_game_row_def primary_keys_def
        distinct_map_filter split: option.splits)
next
  case AddGame
  then show ?thesis
    using assms next_id_not_mem [of "map g_id (games s)"]
    by (auto simp: add_game_confirm_def insert_game_def Let_def primary_keys_def)
qed

lemma run_primary_keys: "primary_keys s \<Longrightarrow> primary_keys (run admin_ids s ops)"
  unfolding run_def by (induction ops arbitrary: s) (simp_all add: exec_primary_keys)

lemma empty_db_primary_keys: "primary_keys empty_db"
  by (simp add: primary_keys_def empty_db_def)

section \<open>C1: the status a new registration gets\<close>

text \<open>
  C1, as stated, in its last part: with \<open>teamsCapacity = N\<close>, the N-th registration
  (N - 1 teams confirmed before it) is CONFIRMED. It fails where the people limit is
  exceeded: in a game with room for one team and one person, nobody registered, the
  first team comes with two players and is put on the waitlist.
\<close>

theorem nth_team_counterexample:
  "teams_capacity (quiz (Some 1) (Some 1)) = Some 1 \<and>
   count_confirmed_teams (db_of (quiz (Some 1) (Some 1)) []) 1 = 1 - 1 \<and>
   fst (players_step (db_of (quiz (Some 1) (Some 1)) []) 5 1 ''Ants'' 10 10 (Some 2)) =
     Inr ((team 1 10 ''Ants'' 2 ''waitlist'') \<lparr>created_at := 5, updated_at := 5\<rparr>)"
  by (simp add: example_defs query_defs rule_defs players_step_def insert_registration_def Let_def)

text \<open>
  C1, amended: a registration attempt for an active game, with 1 to 12 players, by a user
  who has no registration for the game and under a team name not in use there, stores one
  new registration and nothing else. Its status is \<open>waitlist\<close> if the team limit is set
  and the number of confirmed registrations of the game has reached it, or the people
  limit is set and the confirmed players plus the candidate's exceed it; it is
  \<open>confirmed\<close> otherwise. In particular, with \<open>teamsCapacity = N\<close> and N teams
  confirmed the attempt is waitlisted, and with fewer than N confirmed (the N-th team
  among them) it is confirmed when the people limit is unset or not exceeded.
\<close>

theorem create_status_rule:
  assumes "get_game s gid = Some g" and "is_active g" and "1 \<le> n" and "n \<le> 12"
    and "find_by_user s uid gid = None" and "find_by_team s gid name = None"
  shows "\<exists>reg. players_step s now gid name uid cid (Some n) =
                 (Inr reg, s\<lparr>registrations := registrations s @ [reg]\<rparr>) \<and>
           user_id reg = uid \<and> game_id reg = gid \<and> team_name reg = name \<and> players reg = n \<and>
           status reg =
             (if (\<exists>cap. teams_capacity g = Some cap \<and> count_confirmed_teams s gid \<ge> cap) \<or>
                 (\<exists>cap. people_capacity g = Some cap \<and> sum_confirmed_people s gid None + n > cap)
              then ''waitlist'' else ''confirmed'') \<and>
           (\<forall>N. teams_capacity g = Some N \<and> count_confirmed_teams s gid = N
                \<longrightarrow> status reg = ''waitlist'') \<and>
           (\<forall>N. teams_capacity g = Some N \<and> count_confirmed_teams s gid < N \<and>
                (\<forall>P. people_capacity g = Some P \<longrightarrow> sum_confirmed_people s gid None + n \<le> P)
                \<longrightarrow> status reg = ''confirmed'')"
  unfolding players_step_success [OF assms] Let_def
  by (rule exI, rule conjI, rule refl)
     (auto simp: rule_defs split: option.splits)

text \<open>
  The rule at work: limits of 2 teams and 10 people, one team of 4 confirmed; a second
  team of 5 is confirmed.
\<close>

theorem create_status_rule_witness:
  "fst (players_step (db_of (quiz (Some 2) (Some 10)) [team 1 10 ''Ants'' 4 ''confirmed''])
          5 1 ''Bees'' 20 20 (Some 5)) =
     Inr ((team 2 20 ''Bees'' 5 ''confirmed'') \<lparr>created_at := 5, updated_at := 5\<rparr>)"
  using create_status_rule [of "db_of (quiz (Some 2) (Some 10)) [team 1 10 ''Ants'' 4 ''confirmed'']"
      1 "quiz (Some 2) (Some 10)" 5 20 "''Bees''" 5 20]
  by (auto simp: example_defs query_defs rule_defs players_step_def insert_registration_def Let_def)

section \<open>C2: the status after an edit of the player count\<close>

text \<open>
  C2, as stated: the edit re-evaluates with the creation rule on the aggregates of the
  other confirmed registrations, the team comparison being \<open>>\<close> when the edited
  registration was confirmed (\<open>spec_edit_status\<close>). Game 1 has room for one team.
  First database: Ants and Bees are both confirmed (one team too many, as two concurrent
  registrations can leave it); Ants edits its player count and is put on the waitlist,
  where the stated rule keeps it confirmed (one other team, and 1 > 1 is false). Second
  database: Ants is confirmed and Bees is on the waitlist; Bees edits its player count
  and becomes confirmed, where the stated rule keeps it on the waitlist (1 \<ge> 1).
\<close>

theorem edit_rule_counterexample:
  "get_registration (snd (edit_players_apply
      (db_of (quiz (Some 1) None)
         [team 1 10 ''Ants'' 4 ''confirmed'', team 2 20 ''Bees'' 5 ''confirmed''])
      9 1 10 (Some 3))) 1 = Some ((team 1 10 ''Ants'' 3 ''waitlist'')\<lparr>updated_at := 9\<rparr>) \<and>
   spec_edit_status (quiz (Some 1) None) True
     (other_confirmed_teams
        (db_of (quiz (Some 1) None)
           [team 1 10 ''Ants'' 4 ''confirmed'', team 2 20 ''Bees'' 5 ''confirmed'']) 1 1)
     (other_confirmed_people
        (db_of (quiz (Some 1) None)
           [team 1 10 ''Ants'' 4 ''confirmed'', team 2 20 ''Bees'' 5 ''confirmed'']) 1 1)
     3 = ''confirmed'' \<and>
   get_registration (snd (edit_players_apply
      (db_of (quiz (Some 1) None)
         [team 1 10 ''Ants'' 4 ''confirmed'', team 2 20 ''Bees'' 5 ''waitlist''])
      9 2 20 (Some 3))) 2 = Some ((team 2 20 ''Bees'' 3 ''confirmed'')\<lparr>updated_at := 9\<rparr>) \<and>
   spec_edit_status (quiz (Some 1) None) False
     (other_confirmed_teams
        (db_of (quiz (Some 1) None)
           [team 1 10 ''Ants'' 4 ''confirmed'', team 2 20 ''Bees'' 5 ''waitlist'']) 1 2)
     (other_confirmed_people
        (db_of (quiz (Some 1) None)
           [team 1 10 ''Ants'' 4 ''confirmed'', team 2 20 ''Bees'' 5 ''waitlist'']) 1 2)
     3 = ''waitlist''"
  by (simp add: example_defs query_defs rule_defs other_defs spec_edit_status_def
      edit_players_apply_def update_registration_def Let_def)

text \<open>
  C2, amended: an edit of the player count by the owner, to a value in 1..12, stores the
  new count and a recomputed status. Whenever the team limit is unset or differs from
  the number of the other confirmed registrations of the game, the status is the one
  the statement above gives (\<open>spec_edit_status\<close>): the creation rule on the aggregates
  of the other confirmed registrations, with \<open>>\<close> for the teams when the edited
  registration was confirmed and \<open>\<ge>\<close> when it was not; so a registration on the
  waitlist is confirmed by an edit that makes it fit. When the edited registration was
  already confirmed, the team count is in every case the count of all confirmed
  registrations of the game, the edited one included (the others plus one), compared
  with the limit by \<open>>\<close>: where the others fill the limit exactly, it is put on the
  waitlist. In every case, a people limit exceeded by the others' players plus the new
  count gives \<open>waitlist\<close>. (Not part of this statement: a registration that was not
  confirmed, where the others fill the team limit exactly; see C3.)
\<close>

theorem edit_status_rule:
  assumes "primary_keys s" and "get_registration s rid = Some reg" and "user_id reg = uid"
    and "1 \<le> n" and "n \<le> 12" and "get_game s (game_id reg) = Some g"
  shows "\<exists>s' reg'. edit_players_apply s now rid uid (Some n) = (Inr (), s') \<and>
           get_registration s' rid = Some reg' \<and> players reg' = n \<and>
           (teams_capacity g \<noteq> Some (other_confirmed_teams s (game_id reg) rid) \<longrightarrow>
              status reg' =
                spec_edit_status g (status reg = ''confirmed'')
                  (other_confirmed_teams s (game_id reg) rid)
                  (other_confirmed_people s (game_id reg) rid) n) \<and>
           (status reg \<noteq> ''confirmed'' \<and>
            teams_capacity g \<noteq> Some (other_confirmed_teams s (game_id reg) rid) \<longrightarrow>
              status reg' =
                (if (\<exists>cap. teams_capacity g = Some cap \<and>
                           other_confirmed_teams s (game_id reg) rid \<ge> cap) \<or>
                    (\<exists>cap. people_capacity g = Some cap \<and>
                           other_confirmed_people s (game_id reg) rid + n > cap)
                 then ''waitlist'' else ''confirmed'')) \<and>
           (status reg = ''confirmed'' \<longrightarrow>
              count_confirmed_teams s (game_id reg) =
                other_confirmed_teams s (game_id reg) rid + 1 \<and>
              status reg' =
                (if (\<exists>cap. teams_capacity g = Some cap \<and>
                           other_confirmed_teams s (game_id reg) rid + 1 > cap) \<or>
                    (\<exists>cap. people_capacity g = Some cap \<and>
                           other_confirmed_people s (game_id reg) rid + n > cap)
                 then ''waitlist'' else ''confirmed'')) \<and>
           ((\<exists>cap. people_capacity g = Some cap \<and>
                   other_confirmed_people s (game_id reg) rid + n > cap)
              \<longrightarrow> status reg' = ''waitlist'')"
proof -
  let ?gid = "game_id reg"
  let ?ot = "other_confirmed_teams s ?gid rid"
  let ?op = "other_confirmed_people s ?gid rid"
  from edit_players_apply_success [OF assms, of now]
  obtain s' reg' t where
    run: "edit_players_apply s now rid uid (Some n) = (Inr (), s')" and
    look: "get_registration s' rid = Some reg'" and
    row: "reg' = reg\<lparr>players := n, updated_at := t,
            status := edit_status g (count_confirmed_teams s ?gid)
              (sum_confirmed_people s ?gid (Some rid)) n\<rparr>"
    by blast
  have people: "sum_confirmed_people s ?gid (Some rid) = ?op"
    by (rule sum_confirmed_people_others)
  have teams: "count_confirmed_teams s ?gid = ?ot + (if status reg = ''confirmed'' then 1 else 0)"
    using count_confirmed_teams_split [OF assms(1,2), of ?gid] by simp
  have st: "status reg' = edit_status g (count_confirmed_teams s ?gid) ?op n"
    by (simp add: row people)
  have conf: "count_confirmed_teams s ?gid = ?ot + 1 \<and>
      status reg' =
      (if (\<exists>cap. teams_capacity g = Some cap \<and> ?ot + 1 > cap) \<or>
          (\<exists>cap. people_capacity g = Some cap \<and> ?op + n > cap)
       then ''waitlist'' else ''confirmed'')" if "status reg = ''confirmed''"
    unfolding st using teams that
    by (auto simp: edit_status_def edit_teams_over_def people_over_def split: option.splits)
  have unconf: "status reg' =
      (if (\<exists>cap. teams_capacity g = Some cap \<and> ?ot \<ge> cap) \<or>
          (\<exists>cap. people_capacity g = Some cap \<and> ?op + n > cap)
       then ''waitlist'' else ''confirmed'')"
    if "status reg \<noteq> ''confirmed''" and "teams_capacity g \<noteq> Some ?ot"
    unfolding st using teams that
    by (auto simp: edit_status_def edit_teams_over_def people_over_def split: option.splits)
  have spec: "status reg' = spec_edit_status g (status reg = ''confirmed'') ?ot ?op n"
    if "teams_capacity g \<noteq> Some ?ot"
    unfolding st using teams that
    by (auto simp: edit_status_def edit_teams_over_def people_over_def spec_edit_status_def
        split: option.splits)
  have b: "status reg' = ''waitlist''"
    if "\<exists>cap. people_capacity g = Some cap \<and> ?op + n > cap"
    using that unfolding st
    by (auto simp: edit_status_def people_over_def split: option.splits)
  have "players reg' = n" by (simp add: row)
  with run look conf unconf spec b show ?thesis by blast
qed

text \<open>
  Limits of 2 teams and 10 people, Ants (4) and Bees (5) confirmed. Ants goes to 7
  players: 5 + 7 > 10, waitlist. Ants goes to 5 players: 5 + 5 = 10 and 2 teams, confirmed.
  Limits of 3 teams and 10 people, Ants (8) confirmed and Bees (5) on the waitlist. Bees
  goes to 2 players: one other team, 8 + 2 = 10, confirmed.
\<close>

theorem edit_status_rule_witness:
  "get_registration (snd (edit_players_apply
      (db_of (quiz (Some 2) (Some 10))
         [team 1 10 ''Ants'' 4 ''confirmed'', team 2 20 ''Bees'' 5 ''confirmed''])
      9 1 10 (Some 7))) 1 = Some ((team 1 10 ''Ants'' 7 ''waitlist'')\<lparr>updated_at := 9\<rparr>) \<and>
   other_confirmed_people
      (db_of (quiz (Some 2) (Some 10))
         [team 1 10 ''Ants'' 4 ''confirmed'', team 2 20 ''Bees'' 5 ''confirmed'']) 1 1 + 7 = 12 \<and>
   get_registration (snd (edit_players_apply
      (db_of (quiz (Some 2) (Some 10))
         [team 1 10 ''Ants'' 4 ''confirmed'', team 2 20 ''Bees'' 5 ''confirmed''])
      9 1 10 (Some 5))) 1 = Some ((team 1 10 ''Ants'' 5 ''confirmed'')\<lparr>updated_at := 9\<rparr>) \<and>
   other_confirmed_teams
      (db_of (quiz (Some 2) (Some 10))
         [team 1 10 ''Ants'' 4 ''confirmed'', team 2 20 ''Bees'' 5 ''confirmed'']) 1 1 + 1 = 2 \<and>
   get_registration (snd (edit_players_apply
      (db_of (quiz (Some 3) (Some 10))
         [team 1 10 ''Ants'' 8 ''confirmed'', team 2 20 ''Bees'' 5 ''waitlist''])
      9 2 20 (Some 2))) 2 = Some ((team 2 20 ''Bees'' 2 ''confirmed'')\<lparr>updated_at := 9\<rparr>) \<and>
   teams_capacity (quiz (Some 3) (Some 10)) \<noteq>
     Some (other_confirmed_teams
      (db_of (quiz (Some 3) (Some 10))
         [team 1 10 ''Ants'' 8 ''confirmed'', team 2 20 ''Bees'' 5 ''waitlist'']) 1 2) \<and>
   spec_edit_status (quiz (Some 3) (Some 10)) False 1 8 2 = ''confirmed''"
  using
    edit_status_rule [of "db_of (quiz (Some 2) (Some 10))
         [team 1 10 ''Ants'' 4 ''confirmed'', team 2 20 ''Bees'' 5 ''confirmed'']"
      1 "team 1 10 ''Ants'' 4 ''confirmed''" 10 7 "quiz (Some 2) (Some 10)" 9]
    edit_status_rule [of "db_of (quiz (Some 2) (Some 10))
         [team 1 10 ''Ants'' 4 ''confirmed'', team 2 20 ''Bees'' 5 ''confirmed'']"
      1 "team 1 10 ''Ants'' 4 ''confirmed''" 10 5 "quiz (Some 2) (Some 10)" 9]
    edit_status_rule [of "db_of (quiz (Some 3) (Some 10))
         [team 1 10 ''Ants'' 8 ''confirmed'', team 2 20 ''Bees'' 5 ''waitlist'']"
      2 "team 2 20 ''Bees'' 5 ''waitlist''" 20 2 "quiz (Some 3) (Some 10)" 9]
  by (auto simp: example_defs query_defs rule_defs other_defs primary_keys_def
      spec_edit_status_def edit_players_apply_def update_registration_def Let_def)

section \<open>C3: re-evaluation with nothing changed\<close>

text \<open>
  C3 says that re-running the evaluation of the edit path with the same player count and
  the same confirmed aggregates gives the status the registration has. The code does
  otherwise. A game with room for one team: Ants registers and is confirmed, Bees
  registers and is put on the waitlist (1 \<ge> 1). Bees then sends its player count
  again, unchanged: \<open>edit_players_apply\<close> compares 1 > 1 and confirms Bees, a second team
  in a game for one. Sent once more, still unchanged, the count of confirmed teams is 2,
  2 > 1, and Bees is back on the waitlist.
\<close>

theorem reevaluation_changes_status:
  "registrations (run [] (db_of (quiz (Some 1) None) [])
     [Register 1 1 ''Ants'' 10 10 (Some 1),
      Register 2 1 ''Bees'' 20 20 (Some 1)]) =
     [(team 1 10 ''Ants'' 1 ''confirmed'')\<lparr>created_at := 1, updated_at := 1\<rparr>,
      (team 2 20 ''Bees'' 1 ''waitlist'')\<lparr>created_at := 2, updated_at := 2\<rparr>] \<and>
   registrations (run [] (db_of (quiz (Some 1) None) [])
     [Register 1 1 ''Ants'' 10 10 (Some 1),
      Register 2 1 ''Bees'' 20 20 (Some 1),
      EditPlayers 3 2 20 (Some 1)]) =
     [(team 1 10 ''Ants'' 1 ''confirmed'')\<lparr>created_at := 1, updated_at := 1\<rparr>,
      (team 2 20 ''Bees'' 1 ''confirmed'')\<lparr>created_at := 2, updated_at := 3\<rparr>] \<and>
   registrations (run [] (db_of (quiz (Some 1) None) [])
     [Register 1 1 ''Ants'' 10 10 (Some 1),
      Register 2 1 ''Bees'' 20 20 (Some 1),
      EditPlayers 3 2 20 (Some 1),
      EditPlayers 4 2 20 (Some 1)]) =
     [(team 1 10 ''Ants'' 1 ''confirmed'')\<lparr>created_at := 1, updated_at := 1\<rparr>,
      (team 2 20 ''Bees'' 1 ''waitlist'')\<lparr>created_at := 2, updated_at := 4\<rparr>]"
  by (simp add: example_defs query_defs rule_defs run_def
      players_step_def insert_registration_def
      edit_players_apply_def update_registration_def Let_def)

section \<open>C4: one registration per user and per team name\<close>

text \<open>
  C4: when the game already has a registration of the same user, or one under the same
  team name (whoever owns it), the attempt fails and the database stays as it was. An
  attempt that is valid otherwise (a number of players in 1..12, an active game) fails
  with \<open>DuplicateRegistration\<close>, the answer to the \<^verbatim>\<open>IntegrityError\<close> of the insert;
  the first step of the conversation, \<open>choose_game\<close>, already refuses the user who is
  registered for the game.
\<close>

theorem duplicate_registration_rejected:
  assumes "r \<in> set (registrations s)" and "game_id r = gid"
    and "user_id r = uid \<or> team_name r = name"
  shows "players_step s now gid name uid cid parsed =
           (Inl (if (case parsed of None \<Rightarrow> True | Some n \<Rightarrow> \<not> (1 \<le> n \<and> n \<le> 12))
                 then InvalidPlayers
                 else if (case get_game s gid of None \<Rightarrow> True | Some g \<Rightarrow> \<not> is_active g)
                 then GameUnavailable
                 else DuplicateRegistration), s) \<and>
         (user_id r = uid \<longrightarrow>
            choose_game s gid uid =
              Inl (if (case get_game s gid of None \<Rightarrow> True | Some g \<Rightarrow> \<not> is_active g)
                   then GameUnavailable else DuplicateRegistration))"
proof -
  have viol: "violates_unique s
      \<lparr>r_id = next_id (map r_id (registrations s)), user_id = uid, chat_id = cid, game_id = gid,
       team_name = name, players = n, status = st, created_at = now, updated_at = now\<rparr>" for n st
    by (rule duplicate_violates [OF assms(1)]) (use assms(2,3) in auto)
  have "find_by_user s uid gid \<noteq> None" if "user_id r = uid"
    unfolding find_by_user_def find_None_iff using assms(1,2) that by blast
  then show ?thesis
    by (auto simp: players_step_def choose_game_def insert_registration_def Let_def viol
        split: option.splits)
qed

text \<open>A second attempt by user 10, and one by user 20 under the name in use.\<close>

theorem duplicate_registration_rejected_witness:
  "players_step (db_of (quiz (Some 2) None) [team 1 10 ''Ants'' 4 ''confirmed''])
     5 1 ''Bees'' 10 10 (Some 3) =
     (Inl DuplicateRegistration, db_of (quiz (Some 2) None) [team 1 10 ''Ants'' 4 ''confirmed'']) \<and>
   players_step (db_of (quiz (Some 2) None) [team 1 10 ''Ants'' 4 ''confirmed''])
     5 1 ''Ants'' 20 20 (Some 3) =
     (Inl DuplicateRegistration, db_of (quiz (Some 2) None) [team 1 10 ''Ants'' 4 ''confirmed'']) \<and>
   choose_game (db_of (quiz (Some 2) None) [team 1 10 ''Ants'' 4 ''confirmed'']) 1 10 =
     Inl DuplicateRegistration"
  using
    duplicate_registration_rejected [of "team 1 10 ''Ants'' 4 ''confirmed''"
      "db_of (quiz (Some 2) None) [team 1 10 ''Ants'' 4 ''confirmed'']" 1 10 "''Bees''" 5 10 "Some 3"]
    duplicate_registration_rejected [of "team 1 10 ''Ants'' 4 ''confirmed''"
      "db_of (quiz (Some 2) None) [team 1 10 ''Ants'' 4 ''confirmed'']" 1 20 "''Ants''" 5 20 "Some 3"]
  by (simp add: example_defs get_game_def)

section \<open>C5: the people limit\<close>

text \<open>
  C5, as stated: in a game with \<open>peopleCapacity = P\<close> a candidate is CONFIRMED if and
  only if \<open>confirmedPeople + candidatePlayers \<le> P\<close>. It fails where the team limit is
  reached: limits of 2 teams and 10 people, teams of 4 and 5 confirmed; a third team of
  one player would make 10 people, and is put on the waitlist.
\<close>

theorem people_rule_counterexample:
  "people_capacity (quiz (Some 2) (Some 10)) = Some 10 \<and>
   sum_confirmed_people
     (db_of (quiz (Some 2) (Some 10))
        [team 1 10 ''Ants'' 4 ''confirmed'', team 2 20 ''Bees'' 5 ''confirmed'']) 1 None + 1 \<le> 10 \<and>
   fst (players_step
     (db_of (quiz (Some 2) (Some 10))
        [team 1 10 ''Ants'' 4 ''confirmed'', team 2 20 ''Bees'' 5 ''confirmed''])
     5 1 ''Cats'' 30 30 (Some 1)) =
     Inr ((team 3 30 ''Cats'' 1 ''waitlist'') \<lparr>created_at := 5, updated_at := 5\<rparr>)"
  by (simp add: example_defs query_defs rule_defs players_step_def insert_registration_def Let_def)

text \<open>
  C5, amended: in a game with \<open>peopleCapacity = P\<close> a candidate registration is
  CONFIRMED if and only if \<open>confirmedPeople + candidatePlayers \<le> P\<close> and the team limit
  is unset or not reached (\<open>confirmedTeams < teamsCapacity\<close>); it is on the waitlist
  otherwise. In particular, under that condition on the teams, a candidate that makes the
  total exactly \<open>P\<close> is CONFIRMED.
\<close>

theorem people_capacity_rule:
  assumes "get_game s gid = Some g" and "is_active g" and "1 \<le> n" and "n \<le> 12"
    and "find_by_user s uid gid = None" and "find_by_team s gid name = None"
    and "people_capacity g = Some P"
  shows "\<exists>reg. players_step s now gid name uid cid (Some n) =
                 (Inr reg, s\<lparr>registrations := registrations s @ [reg]\<rparr>) \<and>
           (status reg = ''confirmed'' \<longleftrightarrow>
              sum_confirmed_people s gid None + n \<le> P \<and>
              (\<forall>N. teams_capacity g = Some N \<longrightarrow> count_confirmed_teams s gid < N)) \<and>
           (status reg \<noteq> ''confirmed'' \<longrightarrow> status reg = ''waitlist'')"
  unfolding players_step_success [OF assms(1-6)] Let_def
  by (rule exI, rule conjI, rule refl)
     (auto simp: rule_defs assms(7) split: option.splits)

text \<open>Exact equality: 4 people confirmed, limit 10, a team of 6 is confirmed.\<close>

theorem people_capacity_rule_witness:
  "fst (players_step (db_of (quiz (Some 2) (Some 10)) [team 1 10 ''Ants'' 4 ''confirmed''])
          5 1 ''Bees'' 20 20 (Some 6)) =
     Inr ((team 2 20 ''Bees'' 6 ''confirmed'') \<lparr>created_at := 5, updated_at := 5\<rparr>) \<and>
   sum_confirmed_people (db_of (quiz (Some 2) (Some 10)) [team 1 10 ''Ants'' 4 ''confirmed'']) 1 None
     + 6 = 10"
  using people_capacity_rule [of "db_of (quiz (Some 2) (Some 10)) [team 1 10 ''Ants'' 4 ''confirmed'']"
      1 "quiz (Some 2) (Some 10)" 6 20 "''Bees''" 10 5 20]
  by (auto simp: example_defs query_defs rule_defs players_step_def insert_registration_def Let_def)

section \<open>C6: a game that is missing or not active\<close>

text \<open>
  C6: for a game that does not exist or is not active, \<open>choose_game\<close> and
  \<open>players_step\<close> answer \<open>GameUnavailable\<close> (\<open>players_step\<close> answers
  \<open>InvalidPlayers\<close> first when the number is no integer in 1..12); no registration is
  created and the database is the one before.
\<close>

theorem unavailable_game_rejected:
  assumes "get_game s gid = None \<or> (\<exists>g. get_game s gid = Some g \<and> \<not> is_active g)"
  shows "choose_game s gid uid = Inl GameUnavailable \<and>
         players_step s now gid name uid cid parsed =
           (Inl (if (case parsed of None \<Rightarrow> True | Some n \<Rightarrow> \<not> (1 \<le> n \<and> n \<le> 12))
                 then InvalidPlayers else GameUnavailable), s)"
  using assms
  by (auto simp: players_step_def choose_game_def split: option.splits)

text \<open>Game 1 not active; game 2 missing.\<close>

theorem unavailable_game_rejected_witness:
  "players_step (db_of ((quiz None None)\<lparr>is_active := False\<rparr>) []) 5 1 ''Ants'' 10 10 (Some 3) =
     (Inl GameUnavailable, db_of ((quiz None None)\<lparr>is_active := False\<rparr>) []) \<and>
   choose_game (db_of ((quiz None None)\<lparr>is_active := False\<rparr>) []) 1 10 = Inl GameUnavailable \<and>
   players_step (db_of (quiz None None) []) 5 2 ''Ants'' 10 10 (Some 3) =
     (Inl GameUnavailable, db_of (quiz None None) []) \<and>
   choose_game (db_of (quiz None None) []) 2 10 = Inl GameUnavailable"
  using
    unavailable_game_rejected [of "db_of ((quiz None None)\<lparr>is_active := False\<rparr>) []" 1 10 5 "''Ants''" 10 "Some 3"]
    unavailable_game_rejected [of "db_of (quiz None None) []" 2 10 5 "''Ants''" 10 "Some 3"]
  by (simp add: example_defs get_game_def)

section \<open>C7: editing or deleting one registration leaves the others alone\<close>

text \<open>
  C7: whatever \<open>edit_players_apply\<close> and \<open>delete_registration\<close> do to the
  registration \<open>rid\<close> (and also when they refuse), the rows of all other registrations,
  of every game, are the same rows afterwards, in the same order, with every column as it
  was; the games are unchanged too. No other registration is re-evaluated.
\<close>

theorem other_registrations_untouched:
  "filter (\<lambda>r. r_id r \<noteq> rid) (registrations (snd (edit_players_apply s now rid uid parsed))) =
     filter (\<lambda>r. r_id r \<noteq> rid) (registrations s) \<and>
   games (snd (edit_players_apply s now rid uid parsed)) = games s \<and>
   filter (\<lambda>r. r_id r \<noteq> rid) (registrations (snd (delete_registration s rid uid))) =
     filter (\<lambda>r. r_id r \<noteq> rid) (registrations s) \<and>
   games (snd (delete_registration s rid uid)) = games s"
proof -
  have "filter (\<lambda>r. r_id r \<noteq> rid) (registrations (snd (delete_registration s rid uid))) =
          filter (\<lambda>r. r_id r \<noteq> rid) (registrations s) \<and>
        games (snd (delete_registration s rid uid)) = games s"
    by (auto simp: delete_registration_def delete_registration_row_def
        dest: get_registration_id split: option.splits)
  with edit_players_apply_frame [of s now rid uid parsed] show ?thesis by simp
qed

text \<open>Team 1 is edited, or deleted; team 2 is as before.\<close>

theorem other_registrations_untouched_witness:
  "filter (\<lambda>r. r_id r \<noteq> 1)
     (registrations (snd (edit_players_apply
        (db_of (quiz (Some 2) (Some 10))
           [team 1 10 ''Ants'' 4 ''confirmed'', team 2 20 ''Bees'' 5 ''confirmed''])
        9 1 10 (Some 7)))) = [team 2 20 ''Bees'' 5 ''confirmed''] \<and>
   filter (\<lambda>r. r_id r \<noteq> 1)
     (registrations (snd (delete_registration
        (db_of (quiz (Some 2) (Some 10))
           [team 1 10 ''Ants'' 4 ''confirmed'', team 2 20 ''Bees'' 5 ''confirmed''])
        1 10))) = [team 2 20 ''Bees'' 5 ''confirmed'']"
  using other_registrations_untouched [of 1
      "db_of (quiz (Some 2) (Some 10))
         [team 1 10 ''Ants'' 4 ''confirmed'', team 2 20 ''Bees'' 5 ''confirmed'']" 9 10 "Some 7"]
  by (simp add: example_defs)

section \<open>C8: deleting a game\<close>

text \<open>
  C8 says that deleting a game removes the game and every registration that refers to
  it, and touches no registration of another game. The code does less. Two games; Ants
  and Bees are registered for game 1, user 10 also for game 2. The administrator deletes
  game 1: \<open>admin_delete_game\<close> succeeds, game 1 is gone and game 2 with its registration
  is as before, but the two registrations of game 1 are still stored. The owner of one
  of them can no longer edit its player count: the handler finds no game and raises.
\<close>

theorem game_deletion_leaves_registrations:
  "admin_delete_game [7]
     \<lparr>games = [quiz None None, (quiz None None)\<lparr>g_id := 2\<rparr>],
      registrations = [team 1 10 ''Ants'' 4 ''confirmed'',
                       (team 2 10 ''Ants'' 4 ''confirmed'')\<lparr>game_id := 2\<rparr>,
                       team 3 20 ''Bees'' 5 ''waitlist'']\<rparr> 7 1 =
     (Inr (),
      \<lparr>games = [(quiz None None)\<lparr>g_id := 2\<rparr>],
       registrations = [team 1 10 ''Ants'' 4 ''confirmed'',
                        (team 2 10 ''Ants'' 4 ''confirmed'')\<lparr>game_id := 2\<rparr>,
                        team 3 20 ''Bees'' 5 ''waitlist'']\<rparr>) \<and>
   fst (edit_players_apply
     \<lparr>games = [(quiz None None)\<lparr>g_id := 2\<rparr>],
      registrations = [team 1 10 ''Ants'' 4 ''confirmed'',
                       (team 2 10 ''Ants'' 4 ''confirmed'')\<lparr>game_id := 2\<rparr>,
                       team 3 20 ''Bees'' 5 ''waitlist'']\<rparr> 9 1 10 (Some 5)) = Inl Crashed"
  by (simp add: example_defs is_admin_def query_defs admin_delete_game_def delete_game_row_def
      edit_players_apply_def update_registration_def Let_def)

section \<open>C9: the stored status is always one of the two strings\<close>

text \<open>
  C9: the empty database satisfies \<open>status_domain\<close>, and from a database that satisfies
  it every sequence of operations (registration, edit of the players, rename, deletion of
  a registration, activation toggle, deletion and creation of a game) leads to one that
  does: no operation stores a status other than \<open>confirmed\<close> or \<open>waitlist\<close>.
\<close>

theorem status_domain_invariant:
  "status_domain empty_db \<and>
   (status_domain s \<longrightarrow> status_domain (run admin_ids s ops))"
proof
  show "status_domain empty_db" by (simp add: status_domain_def empty_db_def)
  have "status_domain s \<Longrightarrow> status_domain (foldl (exec admin_ids) s ops)"
    by (induction ops arbitrary: s) (simp_all add: exec_status_domain)
  then show "status_domain s \<longrightarrow> status_domain (run admin_ids s ops)"
    by (simp add: run_def)
qed

theorem status_domain_invariant_witness:
  "status_domain empty_db \<and>
   status_domain (run [7] empty_db
     [AddGame 0 ''Quiz'' None None (Some 1) None True,
      Register 1 1 ''Ants'' 10 10 (Some 4),
      Register 2 1 ''Bees'' 20 20 (Some 5),
      EditPlayers 3 2 20 (Some 6),
      EditName 4 1 10 (Some ''Wasps''),
      ToggleGame 7 1,
      DeleteRegistration 1 10])"
  using status_domain_invariant [of empty_db "[7]"
     "[AddGame 0 ''Quiz'' None None (Some 1) None True,
      Register 1 1 ''Ants'' 10 10 (Some 4),
      Register 2 1 ''Bees'' 20 20 (Some 5),
      EditPlayers 3 2 20 (Some 6),
      EditName 4 1 10 (Some ''Wasps''),
      ToggleGame 7 1,
      DeleteRegistration 1 10]"]
  by simp

section \<open>C10: fewer players never hurt\<close>

text \<open>
  C10: for fixed limits of the game and fixed confirmed aggregates, if the creation rule
  confirms a candidate with \<open>p\<close> players, it confirms every candidate with
  \<open>p' \<le> p\<close> players.
\<close>

theorem create_status_mono:
  "create_status g ct cp p = ''confirmed'' \<Longrightarrow> p' \<le> p \<Longrightarrow> create_status g ct cp p' = ''confirmed''"
  unfolding create_status_def people_over_def create_teams_over_def
  by (auto split: option.splits if_splits)

theorem create_status_mono_witness:
  "create_status (quiz (Some 2) (Some 10)) 1 4 6 = ''confirmed'' \<and> (3::int) \<le> 6 \<and>
   create_status (quiz (Some 2) (Some 10)) 1 4 3 = ''confirmed''"
proof -
  have a: "create_status (quiz (Some 2) (Some 10)) 1 4 6 = ''confirmed''"
    by (simp add: rule_defs quiz_def)
  have b: "(3::int) \<le> 6" by simp
  from create_status_mono [OF a b] a b show ?thesis by simp
qed

end
